theory Spec2Isabelle
  imports Main "HOL-Library.Option_ord" "HOL-Library.Multiset"
begin

section \<open>Python values, exceptions and text\<close>

text \<open>
  The program is one Python class, \<open>CarCrashAnalysis\<close>, that loads six CSV files as
  Spark data frames, runs eight analyses, appends one formatted text per analysis to the
  attribute \<open>_output\<close> and writes that text to a file. Exceptions are values here:
  a method that can raise returns \<open>py_error + 'a\<close>, with \<open>Inl\<close> the exception.
  Every constructor of \<open>py_error\<close> is a subclass of Python's \<open>Exception\<close>, so an
  \<open>except Exception\<close> clause catches each of them. The string is the exception's message.
\<close>

datatype py_error =
    IndexError string
  | AttributeError string
  | AnalysisException string
  | IllegalArgumentException string
  | OSError string
  | TypeError string

fun str_of_error :: "py_error \<Rightarrow> string" where
  "str_of_error (IndexError m) = m"
| "str_of_error (AttributeError m) = m"
| "str_of_error (AnalysisException m) = m"
| "str_of_error (IllegalArgumentException m) = m"
| "str_of_error (OSError m) = m"
| "str_of_error (TypeError m) = m"

definition then_do :: "py_error + 'a \<Rightarrow> ('a \<Rightarrow> py_error + 'b) \<Rightarrow> py_error + 'b" where
  "then_do r f = (case r of Inl e \<Rightarrow> Inl e | Inr x \<Rightarrow> f x)"

text \<open>
  The values that reach the report: \<open>None\<close>, an \<open>int\<close>, a \<open>str\<close>, a Spark \<open>Row\<close>
  (field names with their values, in order) and a list of rows as \<open>collect()\<close> returns it.
\<close>

datatype py_value = PyNone | PyInt int | PyStr string

type_synonym py_row = "(string \<times> py_value) list"

datatype py_result = Value py_value | Row py_row | RowList "py_row list"

abbreviation newline :: char where
  "newline \<equiv> CHR 0x0A"

abbreviation backslash :: char where
  "backslash \<equiv> CHR 0x5C"

abbreviation single_quote :: char where
  "single_quote \<equiv> CHR 0x27"

abbreviation double_quote :: char where
  "double_quote \<equiv> CHR 0x22"

fun digits10 :: "nat \<Rightarrow> string" where
  "digits10 n =
     (if n < 10 then [''0123456789'' ! n]
      else digits10 (n div 10) @ [''0123456789'' ! (n mod 10)])"

declare digits10.simps [simp del]

definition repr_int :: "int \<Rightarrow> string" where
  "repr_int i = (if i < 0 then CHR ''-'' # digits10 (nat (- i)) else digits10 (nat i))"

text \<open>
  \<open>repr\<close> of a \<open>str\<close>, for code points below 256 (a \<open>char\<close> is one such code point
  here): the text is quoted with single quotes unless it holds a single quote and no
  double quote; the quote and the backslash are escaped, tab, newline and carriage return
  get their letters, and every other non-printable code point is written \<open>\xhh\<close>.
\<close>

definition non_printable :: "char \<Rightarrow> bool" where
  "non_printable c =
     (let n = (of_char c :: nat) in n < 32 \<or> (127 \<le> n \<and> n \<le> 160) \<or> n = 173)"

definition hex2 :: "nat \<Rightarrow> string" where
  "hex2 n = [''0123456789abcdef'' ! (n div 16 mod 16), ''0123456789abcdef'' ! (n mod 16)]"

definition escape_char :: "char \<Rightarrow> char \<Rightarrow> string" where
  "escape_char q c =
     (if c = q \<or> c = backslash then [backslash, c]
      else if c = CHR 0x09 then [backslash, CHR ''t'']
      else if c = newline then [backslash, CHR ''n'']
      else if c = CHR 0x0D then [backslash, CHR ''r'']
      else if non_printable c then [backslash, CHR ''x''] @ hex2 (of_char c)
      else [c])"

definition repr_str :: "string \<Rightarrow> string" where
  "repr_str s =
     (let q = (if single_quote \<in> set s \<and> double_quote \<notin> set s
               then double_quote else single_quote)
      in [q] @ concat (map (escape_char q) s) @ [q])"

fun repr_value :: "py_value \<Rightarrow> string" where
  "repr_value PyNone = ''None''"
| "repr_value (PyInt i) = repr_int i"
| "repr_value (PyStr s) = repr_str s"

fun join_with :: "string \<Rightarrow> string list \<Rightarrow> string" where
  "join_with sep [] = []"
| "join_with sep [x] = x"
| "join_with sep (x # y # ys) = x @ sep @ join_with sep (y # ys)"

definition repr_row :: "py_row \<Rightarrow> string" where
  "repr_row r =
     ''Row('' @ join_with '', '' (map (\<lambda>(k, v). k @ ''='' @ repr_value v) r) @ '')''"

text \<open>
  \<open>"{res}".format(res=result)\<close> is \<open>str(result)\<close>; for an \<open>int\<close> that is its decimal
  text, for a \<open>str\<close> the text itself, and for a \<open>Row\<close> and a list it is their \<open>repr\<close>.
\<close>

fun format_res :: "py_result \<Rightarrow> string" where
  "format_res (Value (PyStr s)) = s"
| "format_res (Value v) = repr_value v"
| "format_res (Row r) = repr_row r"
| "format_res (RowList rs) = ''['' @ join_with '', '' (map repr_row rs) @ '']''"

definition py_getitem :: "'a list \<Rightarrow> nat \<Rightarrow> py_error + 'a" where
  "py_getitem xs i =
     (if i < length xs then Inr (xs ! i) else Inl (IndexError ''list index out of range''))"


section \<open>The data frames\<close>

text \<open>
  \<open>spark.read.csv(path, header=True)\<close> gives every column the type string, and an empty
  field is null: a column value is a \<open>string option\<close>, \<open>None\<close> for null. A data frame is
  the list of its rows. Only the columns the analyses read are fields; every relation
  has \<open>CRASH_ID\<close>, and both the Person and the Unit relation have \<open>DEATH_CNT\<close>.
\<close>

type_synonym col = "string option"

record crash_row =
  CRASH_ID :: col

record charges_row = crash_row +
  CHARGES :: col

record casualty_row = crash_row +
  DEATH_CNT :: col

record person_row = casualty_row +
  PRSN_GNDR_ID :: col
  PRSN_ETHNICITY_ID :: col
  DRVR_LIC_STATE_ID :: col
  DRVR_LIC_CLS_ID :: col
  DRVR_ZIP :: col
  PRSN_ALC_RSLT_ID :: col

record units_row = casualty_row +
  VEH_BODY_STYL_ID :: col
  VEH_MAKE_ID :: col
  VEH_COLOR_ID :: col
  VEH_DMAG_SCL_1_ID :: col
  VEH_DMAG_SCL_2_ID :: col
  FIN_RESP_TYPE_ID :: col
  TOT_INJRY_CNT :: col

text \<open>
  The Spark session. Two of its operations are used on values that are not text: the
  cast of a text to a double and the addition of two doubles, both applied by analysis 4
  when it adds two text columns. Neither is code of the source, so the session holds them
  as they are given; a value of type \<open>'d\<close> is a double as Spark's sort order sees it
  (values that compare equal are one value), and \<open>'d\<close> is linearly ordered.
\<close>

record 'd spark =
  cast_double :: "string \<Rightarrow> 'd option"
  double_add :: "'d \<Rightarrow> 'd \<Rightarrow> 'd"

text \<open>The object: the session, the six data frames, the output path and the report
  built so far.\<close>

record 'd car_crash_analysis =
  spark_session :: "'d spark"
  output_file_path :: string
  charges_use_df :: "charges_row list"
  damages_use_df :: "crash_row list"
  endorse_use_df :: "crash_row list"
  primary_person_use_df :: "person_row list"
  restrict_use_df :: "crash_row list"
  units_use_df :: "units_row list"
  "output" :: string


section \<open>Column expressions and relational operators of the substrate\<close>

text \<open>
  A Spark condition has three values: true, false and null (\<open>None\<close>); \<open>filter\<close> keeps
  the rows whose condition is true.
\<close>

type_synonym sql_bool = "bool option"

definition sql_and :: "sql_bool \<Rightarrow> sql_bool \<Rightarrow> sql_bool" where
  "sql_and a b =
     (if a = Some False \<or> b = Some False then Some False
      else if a = None \<or> b = None then None else Some True)"

definition sql_or :: "sql_bool \<Rightarrow> sql_bool \<Rightarrow> sql_bool" where
  "sql_or a b =
     (if a = Some True \<or> b = Some True then Some True
      else if a = None \<or> b = None then None else Some False)"

definition sql_not :: "sql_bool \<Rightarrow> sql_bool" where
  "sql_not a = map_option Not a"

definition col_eq :: "col \<Rightarrow> string \<Rightarrow> sql_bool" where
  "col_eq c v = map_option (\<lambda>s. s = v) c"

definition col_ne :: "col \<Rightarrow> string \<Rightarrow> sql_bool" where
  "col_ne c v = map_option (\<lambda>s. s \<noteq> v) c"

definition isin :: "col \<Rightarrow> col list \<Rightarrow> sql_bool" where
  "isin c vs =
     (case c of None \<Rightarrow> None
      | Some s \<Rightarrow> if Some s \<in> set vs then Some True
                  else if None \<in> set vs then None else Some False)"

fun contains_text :: "string \<Rightarrow> string \<Rightarrow> bool" where
  "contains_text [] sub = (sub = [])"
| "contains_text (c # cs) sub = (take (length sub) (c # cs) = sub \<or> contains_text cs sub)"

definition col_contains :: "col \<Rightarrow> string \<Rightarrow> sql_bool" where
  "col_contains c v = map_option (\<lambda>s. contains_text s v) c"

text \<open>
  Analysis 1 compares a text column with the integer 0; Spark casts the text to a 32-bit
  integer first, and the comparison is null when the cast is. The cast (Spark 3,
  \<open>UTF8String.toInt\<close>): leading and trailing characters up to the blank, and the
  delete character, are dropped; an optional sign follows, which may not stand alone;
  then digits up to an optional point; the characters after the point must be digits and
  are ignored (the value is truncated); any other character, and a value outside
  \<open>-2147483648 .. 2147483647\<close>, gives null.
\<close>

definition digit_of :: "char \<Rightarrow> nat option" where
  "digit_of c =
     (let n = (of_char c :: nat) in if 48 \<le> n \<and> n \<le> 57 then Some (n - 48) else None)"

fun number_of_digits :: "int \<Rightarrow> string \<Rightarrow> int option" where
  "number_of_digits acc [] = Some acc"
| "number_of_digits acc (c # cs) =
     (case digit_of c of None \<Rightarrow> None | Some d \<Rightarrow> number_of_digits (10 * acc + int d) cs)"

definition is_blank :: "char \<Rightarrow> bool" where
  "is_blank c = (let n = (of_char c :: nat) in n \<le> 32 \<or> n = 127)"

definition trim_all :: "string \<Rightarrow> string" where
  "trim_all s = rev (dropWhile is_blank (rev (dropWhile is_blank s)))"

definition cast_text :: "string \<Rightarrow> int option" where
  "cast_text s =
     (case trim_all s of
        [] \<Rightarrow> None
      | c # cs \<Rightarrow>
          (let negative = (c = CHR ''-'');
               body = (if negative \<or> c = CHR ''+'' then cs else c # cs);
               whole = takeWhile (\<lambda>x. x \<noteq> CHR ''.'') body;
               fraction = drop (Suc (length whole)) body
           in if body = [] then None
              else (case (number_of_digits 0 whole, number_of_digits 0 fraction) of
                      (Some m, Some f) \<Rightarrow>
                        if negative then (if m \<le> 2147483648 then Some (- m) else None)
                        else (if m < 2147483648 then Some m else None)
                    | _ \<Rightarrow> None)))"

definition cast_number :: "col \<Rightarrow> int option" where
  "cast_number c = Option.bind c cast_text"

definition col_gt :: "int option \<Rightarrow> int \<Rightarrow> sql_bool" where
  "col_gt a n = map_option (\<lambda>x. x > n) a"

text \<open>\<open>c1 + c2\<close> on two text columns: each is cast to a double, null when the text is
  null or no number, and the sum is null when either side is.\<close>

definition col_cast_double :: "'d spark \<Rightarrow> col \<Rightarrow> 'd option" where
  "col_cast_double spark c = Option.bind c (cast_double spark)"

definition col_add :: "'d spark \<Rightarrow> 'd option \<Rightarrow> 'd option \<Rightarrow> 'd option" where
  "col_add spark a b =
     (case a of None \<Rightarrow> None | Some x \<Rightarrow> map_option (\<lambda>y. double_add spark x y) b)"

definition df_filter :: "('r \<Rightarrow> sql_bool) \<Rightarrow> 'r list \<Rightarrow> 'r list" where
  "df_filter cond df = filter (\<lambda>r. cond r = Some True) df"

text \<open>
  Row order. Spark leaves the order of a join's and an aggregation's rows, and the order
  of equal keys under \<open>orderBy\<close>, to the execution. The model fixes one order: a join
  lists the left rows in order, each with its matches in the right relation's order;
  groups appear in the order their keys are first met; \<open>orderBy\<close> is stable. A null key
  matches nothing in a join and forms a group of its own in \<open>groupBy\<close>.
\<close>

definition inner_join ::
  "('a \<Rightarrow> col) \<Rightarrow> ('b \<Rightarrow> col) \<Rightarrow> 'a list \<Rightarrow> 'b list \<Rightarrow> ('a \<times> 'b) list" where
  "inner_join ka kb left right =
     concat (map (\<lambda>l. map (\<lambda>r. (l, r))
                        (filter (\<lambda>r. ka l \<noteq> None \<and> ka l = kb r) right)) left)"

definition left_join ::
  "('a \<Rightarrow> col) \<Rightarrow> ('b \<Rightarrow> col) \<Rightarrow> 'a list \<Rightarrow> 'b list \<Rightarrow> ('a \<times> 'b option) list" where
  "left_join ka kb left right =
     concat (map (\<lambda>l. let ms = filter (\<lambda>r. ka l \<noteq> None \<and> ka l = kb r) right
                      in if ms = [] then [(l, None)] else map (\<lambda>r. (l, Some r)) ms) left)"

definition first_seen :: "'k list \<Rightarrow> 'k list" where
  "first_seen ks = rev (remdups (rev ks))"

text \<open>\<open>groupBy(key).agg(count(c))\<close>: one row per key, with the number of the group's
  rows whose column \<open>c\<close> is not null.\<close>

definition group_by_count :: "('r \<Rightarrow> 'k) \<Rightarrow> ('r \<Rightarrow> col) \<Rightarrow> 'r list \<Rightarrow> ('k \<times> nat) list" where
  "group_by_count key c df =
     map (\<lambda>k. (k, length (filter (\<lambda>r. key r = k \<and> c r \<noteq> None) df)))
         (first_seen (map key df))"

text \<open>\<open>orderBy(c, ascending=False)\<close>: descending, nulls last (\<open>None\<close> is the least
  element of the order on \<open>option\<close>), equal keys in their previous order.\<close>

definition order_by_desc :: "('r \<Rightarrow> 'k::linorder) \<Rightarrow> 'r list \<Rightarrow> 'r list" where
  "order_by_desc key df = rev (sort_key key (rev df))"

abbreviation limit :: "nat \<Rightarrow> 'r list \<Rightarrow> 'r list" where
  "limit n df \<equiv> take n df"

abbreviation select :: "('r \<Rightarrow> 'c) \<Rightarrow> 'r list \<Rightarrow> 'c list" where
  "select c df \<equiv> map c df"

text \<open>\<open>row_number().over(Window().orderBy(col(c).desc()))\<close>: the rows in descending
  order of \<open>c\<close>, each with its position, from 1.\<close>

definition with_row_number_desc :: "('r \<Rightarrow> 'k::linorder) \<Rightarrow> 'r list \<Rightarrow> ('r \<times> nat) list" where
  "with_row_number_desc key df =
     (let sorted_df = order_by_desc key df in zip sorted_df [1 ..< Suc (length sorted_df)])"

definition py_col :: "col \<Rightarrow> py_value" where
  "py_col c = (case c of None \<Rightarrow> PyNone | Some s \<Rightarrow> PyStr s)"

definition collect1 :: "string \<Rightarrow> col list \<Rightarrow> py_row list" where
  "collect1 name df = map (\<lambda>c. [(name, py_col c)]) df"


section \<open>The eight analyses\<close>

text \<open>
  Each analysis method computes \<open>result\<close> and appends its label, the formatted result
  and a newline to \<open>_output\<close>. For each method, the definition ending in \<open>_result\<close> is
  the expression the source assigns to \<open>result\<close>.
\<close>

definition append_output :: "'d car_crash_analysis \<Rightarrow> string \<Rightarrow> 'd car_crash_analysis" where
  "append_output self text = self\<lparr>output := output self @ text\<rparr>"

subsection \<open>Analysis 1\<close>

definition get_no_of_car_crashes_persons_killed_male_result :: "person_row list \<Rightarrow> nat" where
  "get_no_of_car_crashes_persons_killed_male_result df =
     length (df_filter (\<lambda>r. sql_and (col_gt (cast_number (DEATH_CNT r)) 0)
                                    (col_eq (PRSN_GNDR_ID r) ''MALE'')) df)"

definition get_no_of_car_crashes_persons_killed_male ::
  "'d car_crash_analysis \<Rightarrow> py_error + 'd car_crash_analysis" where
  "get_no_of_car_crashes_persons_killed_male self =
     (let result = get_no_of_car_crashes_persons_killed_male_result (primary_person_use_df self)
      in Inr (append_output self
           (''Number of crashes (accidents) in which number of persons killed are male: ''
            @ format_res (Value (PyInt (int result))) @ [newline])))"

subsection \<open>Analysis 2\<close>

definition two_wheelers_booked_for_crashes_result :: "units_row list \<Rightarrow> nat" where
  "two_wheelers_booked_for_crashes_result df =
     length (df_filter (\<lambda>r. sql_or (col_eq (VEH_BODY_STYL_ID r) ''MOTORCYCLE'')
                                   (col_eq (VEH_BODY_STYL_ID r) ''POLICE MOTORCYCLE'')) df)"

definition two_wheelers_booked_for_crashes ::
  "'d car_crash_analysis \<Rightarrow> py_error + 'd car_crash_analysis" where
  "two_wheelers_booked_for_crashes self =
     (let result = two_wheelers_booked_for_crashes_result (units_use_df self)
      in Inr (append_output self
           (''Number of two wheelers booked for crashes: ''
            @ format_res (Value (PyInt (int result))) @ [newline])))"

subsection \<open>Analysis 3\<close>

text \<open>\<open>collect()[0]\<close> raises \<open>IndexError\<close> on the empty list.\<close>

definition state_with_highest_accidents_females_result :: "person_row list \<Rightarrow> py_error + py_row" where
  "state_with_highest_accidents_females_result df =
     py_getitem
       (collect1 ''DRVR_LIC_STATE_ID''
          (limit 1 (select fst
             (order_by_desc snd
                (group_by_count DRVR_LIC_STATE_ID CRASH_ID
                   (df_filter (\<lambda>r. col_eq (PRSN_GNDR_ID r) ''FEMALE'') df))))))
       0"

definition state_with_highest_accidents_females ::
  "'d car_crash_analysis \<Rightarrow> py_error + 'd car_crash_analysis" where
  "state_with_highest_accidents_females self =
     then_do (state_with_highest_accidents_females_result (primary_person_use_df self))
       (\<lambda>result. Inr (append_output self
           (''State that has highest number of accidents in which females are involved: ''
            @ format_res (Row result) @ [newline])))"

subsection \<open>Analysis 4\<close>

text \<open>The column \<open>count\<close> added by \<open>withColumn\<close> is the second component of a row;
  it is the sum of two text columns, so a double or null.\<close>

definition top_5_to_15_vehicle_ids_largest_no_of_injuries_result ::
  "('d::linorder) spark \<Rightarrow> units_row list \<Rightarrow> py_row list" where
  "top_5_to_15_vehicle_ids_largest_no_of_injuries_result spark units =
     (let df = limit 15 (order_by_desc snd
                 (map (\<lambda>u. (u, col_add spark (col_cast_double spark (TOT_INJRY_CNT u))
                                              (col_cast_double spark (DEATH_CNT u)))) units))
      in collect1 ''VEH_MAKE_ID''
           (select (\<lambda>((u, c), row_num). VEH_MAKE_ID u)
              (filter (\<lambda>((u, c), row_num). 5 \<le> row_num \<and> row_num \<le> 15)
                 (with_row_number_desc snd df))))"

definition top_5_to_15_vehicle_ids_largest_no_of_injuries ::
  "('d::linorder) car_crash_analysis \<Rightarrow> py_error + 'd car_crash_analysis" where
  "top_5_to_15_vehicle_ids_largest_no_of_injuries self =
     (let result = top_5_to_15_vehicle_ids_largest_no_of_injuries_result
                     (spark_session self) (units_use_df self)
      in Inr (append_output self
           (''Top 5th to 15th VEH_MAKE_IDs that contribute to a largest number of injuries including death: ''
            @ format_res (RowList result) @ [newline])))"

subsection \<open>Analysis 5\<close>

text \<open>
  The source groups the join by body style and ethnicity, counts the non-null
  ethnicities of each group and collects these rows; its comment says
  \<open># unable to find MAX ethnicity group count for each body style\<close>.
\<close>

definition top_ethnic_user_group_of_each_unique_body_style_result ::
  "units_row list \<Rightarrow> person_row list \<Rightarrow> py_row list" where
  "top_ethnic_user_group_of_each_unique_body_style_result units persons =
     map (\<lambda>((style, ethnicity), ethn_count).
            [(''VEH_BODY_STYL_ID'', py_col style),
             (''PRSN_ETHNICITY_ID'', py_col ethnicity),
             (''ethn_count'', PyInt (int ethn_count))])
         (group_by_count (\<lambda>(u, p). (VEH_BODY_STYL_ID u, PRSN_ETHNICITY_ID p))
                         (\<lambda>(u, p). PRSN_ETHNICITY_ID p)
                         (inner_join CRASH_ID CRASH_ID units persons))"

definition top_ethnic_user_group_of_each_unique_body_style ::
  "'d car_crash_analysis \<Rightarrow> py_error + 'd car_crash_analysis" where
  "top_ethnic_user_group_of_each_unique_body_style self =
     (let result = top_ethnic_user_group_of_each_unique_body_style_result
                     (units_use_df self) (primary_person_use_df self)
      in Inr (append_output self
           (''For all the body styles involved in crashes, the top ethnic user group of each unique body style: ''
            @ format_res (RowList result) @ [newline])))"

subsection \<open>Analysis 6\<close>

definition top_5_zip_codes_with_highest_no_of_crashes_with_alcohol_factor_result ::
  "person_row list \<Rightarrow> units_row list \<Rightarrow> py_row list" where
  "top_5_zip_codes_with_highest_no_of_crashes_with_alcohol_factor_result persons units =
     collect1 ''DRVR_ZIP''
       (limit 5 (select fst
          (order_by_desc snd
             (group_by_count (\<lambda>(p, u). DRVR_ZIP p) (\<lambda>(p, u). CRASH_ID p)
                (df_filter
                   (\<lambda>(p, u). sql_and
                      (sql_or (col_eq (VEH_BODY_STYL_ID u) ''PASSENGER CAR, 4-DOOR'')
                              (col_eq (VEH_BODY_STYL_ID u) ''PASSENGER CAR, 2-DOOR''))
                      (col_eq (PRSN_ALC_RSLT_ID p) ''Positive''))
                   (inner_join CRASH_ID CRASH_ID persons units))))))"

definition top_5_zip_codes_with_highest_no_of_crashes_with_alcohol_factor ::
  "'d car_crash_analysis \<Rightarrow> py_error + 'd car_crash_analysis" where
  "top_5_zip_codes_with_highest_no_of_crashes_with_alcohol_factor self =
     (let result = top_5_zip_codes_with_highest_no_of_crashes_with_alcohol_factor_result
                     (primary_person_use_df self) (units_use_df self)
      in Inr (append_output self
           (''Among the crashed cars, what are the Top 5 Zip Codes with highest number crashes with alcohols as the contributing factor to a crash: ''
            @ format_res (RowList result) @ [newline])))"

subsection \<open>Analysis 7\<close>

text \<open>
  The source writes \<open>self.damages_use_df.CRASH_ID.isNull & (...)\<close>: \<open>isNull\<close> is not
  called, so the left operand of \<open>&\<close> is the bound method, not a column. Python finds
  no \<open>__and__\<close> on a method and calls \<open>Column.__rand__\<close> of the right operand, which
  hands the method to the JVM gateway as an argument; the gateway cannot convert it and
  raises \<open>AttributeError\<close> (the object has no \<open>_get_object_id\<close>; the message is
  written here without its quotation marks). An operand of \<open>&\<close> is therefore either a
  column condition or a bound method, and \<open>&\<close> can raise. The operands are evaluated
  left to right and the condition is built before \<open>filter\<close> is called, so nothing is
  filtered or collected when it raises.
\<close>

datatype 'r operand = Condition "'r \<Rightarrow> sql_bool" | BoundMethod

fun operand_and :: "'r operand \<Rightarrow> 'r operand \<Rightarrow> py_error + 'r operand" where
  "operand_and (Condition a) (Condition b) = Inr (Condition (\<lambda>r. sql_and (a r) (b r)))"
| "operand_and BoundMethod (Condition b) =
     Inl (AttributeError ''function object has no attribute _get_object_id'')"
| "operand_and (Condition a) BoundMethod =
     Inl (AttributeError ''function object has no attribute _get_object_id'')"
| "operand_and BoundMethod BoundMethod =
     Inl (TypeError ''unsupported operand type(s) for &: method and method'')"

definition filter_operand :: "'r operand \<Rightarrow> 'r list \<Rightarrow> py_error + 'r list" where
  "filter_operand c df =
     (case c of
        Condition cond \<Rightarrow> Inr (df_filter cond df)
      | BoundMethod \<Rightarrow> Inl (TypeError ''condition should be string or Column''))"

definition count_distinct_crash_ids_with_damages_result ::
  "units_row list \<Rightarrow> crash_row list \<Rightarrow> py_error + py_row list" where
  "count_distinct_crash_ids_with_damages_result units damages =
     (let damage_levels = map Some [''DAMAGED 4'', ''DAMAGED 5'', ''DAMAGED 6'', ''DAMAGE 7 HIGHEST''];
          joined = left_join CRASH_ID CRASH_ID units damages
      in then_do (operand_and BoundMethod
                    (Condition (\<lambda>(u, d). isin (VEH_DMAG_SCL_1_ID u) damage_levels)))
        (\<lambda>c1. then_do (operand_and c1
                    (Condition (\<lambda>(u, d). isin (VEH_DMAG_SCL_2_ID u) damage_levels)))
        (\<lambda>c2. then_do (operand_and c2
                    (Condition (\<lambda>(u, d). col_ne (FIN_RESP_TYPE_ID u) ''NA'')))
        (\<lambda>c3. then_do (filter_operand c3 joined)
        (\<lambda>kept. Inr (collect1 ''CRASH_ID''
                        (first_seen (select (\<lambda>(u, d). CRASH_ID u) kept))))))))"

definition count_distinct_crash_ids_with_damages ::
  "'d car_crash_analysis \<Rightarrow> py_error + 'd car_crash_analysis" where
  "count_distinct_crash_ids_with_damages self =
     then_do (count_distinct_crash_ids_with_damages_result (units_use_df self) (damages_use_df self))
       (\<lambda>result. Inr (append_output self
           (''Count of Distinct Crash IDs where No Damaged Property was observed and Damage Level (VEH_DMAG_SCL~) is above 4 and car avails Insurance: ''
            @ format_res (RowList result) @ [newline])))"

subsection \<open>Analysis 8\<close>

definition top_10_colors :: "units_row list \<Rightarrow> col list" where
  "top_10_colors units =
     select fst (limit 10 (order_by_desc snd (group_by_count VEH_COLOR_ID CRASH_ID units)))"

definition top_25_states_highest_offences :: "person_row list \<Rightarrow> col list" where
  "top_25_states_highest_offences persons =
     select fst
       (limit 25
          (df_filter (\<lambda>(state, crash_count). sql_not (isin state (map Some [''NA'', ''Unknown''])))
             (order_by_desc snd (group_by_count DRVR_LIC_STATE_ID CRASH_ID persons))))"

definition determine_top_5_vehicle_makes_result ::
  "units_row list \<Rightarrow> charges_row list \<Rightarrow> person_row list \<Rightarrow> py_row list" where
  "determine_top_5_vehicle_makes_result units charges persons =
     (let invalid_license = map Some [''NA'', ''UNLICENSED'', ''UNKNOWN''];
          colors = top_10_colors units;
          states = top_25_states_highest_offences persons
      in collect1 ''VEH_MAKE_ID''
           (limit 5 (select fst
              (order_by_desc snd
                 (group_by_count (\<lambda>((u, c), p). VEH_MAKE_ID u) (\<lambda>((u, c), p). CRASH_ID u)
                    (df_filter
                       (\<lambda>((u, c), p).
                          sql_and (sql_and (sql_and
                            (col_contains (CHARGES c) ''SPEED'')
                            (sql_not (isin (DRVR_LIC_CLS_ID p) invalid_license)))
                            (isin (DRVR_LIC_STATE_ID p) states))
                            (isin (VEH_COLOR_ID u) colors))
                       (inner_join (\<lambda>(u, c). CRASH_ID u) CRASH_ID
                          (inner_join CRASH_ID CRASH_ID units charges) persons)))))))"

text \<open>The label of analysis 8 is a triple-quoted literal that runs over three source
  lines: it holds the two line breaks and the eight blanks that start each
  continuation line.\<close>

definition determine_top_5_vehicle_makes ::
  "'d car_crash_analysis \<Rightarrow> py_error + 'd car_crash_analysis" where
  "determine_top_5_vehicle_makes self =
     (let result = determine_top_5_vehicle_makes_result
                     (units_use_df self) (charges_use_df self) (primary_person_use_df self)
      in Inr (append_output self
           (''Top 5 Vehicle Makes where drivers are charged with speeding related offences,''
            @ [newline]
            @ ''        has licensed Drivers, uses top 10 used vehicle colours and has car licensed with the Top 25''
            @ [newline]
            @ ''        states with highest number of offences: ''
            @ format_res (RowList result) @ [newline])))"


section \<open>The file system, the console and the report sink\<close>

text \<open>
  The world outside the object: the files (path to content), the lines printed so far,
  and for each operating-system call an exception it raises when it is made (\<open>None\<close>:
  the call behaves normally). The faults stand for every way a call can fail (a missing
  directory, a permission, a full disk); \<open>print\<close> does not fail.
\<close>

datatype os_call = PathExists | Remove | OpenWrite | Write

record world =
  files :: "string \<rightharpoonup> string"
  stdout :: "string list"
  fault :: "os_call \<Rightarrow> py_error option"

definition print :: "string \<Rightarrow> world \<Rightarrow> world" where
  "print msg w = w\<lparr>stdout := stdout w @ [msg]\<rparr>"

definition os_path_exists :: "string \<Rightarrow> world \<Rightarrow> py_error + bool" where
  "os_path_exists path w =
     (case fault w PathExists of Some e \<Rightarrow> Inl e | None \<Rightarrow> Inr (files w path \<noteq> None))"

definition os_remove :: "string \<Rightarrow> world \<Rightarrow> py_error + world" where
  "os_remove path w =
     (case fault w Remove of
        Some e \<Rightarrow> Inl e
      | None \<Rightarrow> (case files w path of
                   None \<Rightarrow> Inl (OSError ''No such file or directory'')
                 | Some content \<Rightarrow> Inr (w\<lparr>files := (files w)(path := None)\<rparr>)))"

text \<open>\<open>open(path, "w")\<close> creates the file or empties an existing one.\<close>

definition open_w :: "string \<Rightarrow> world \<Rightarrow> py_error + world" where
  "open_w path w =
     (case fault w OpenWrite of
        Some e \<Rightarrow> Inl e
      | None \<Rightarrow> Inr (w\<lparr>files := (files w)(path \<mapsto> [])\<rparr>))"

definition file_write :: "string \<Rightarrow> string \<Rightarrow> world \<Rightarrow> py_error + world" where
  "file_write path text w =
     (case fault w Write of
        Some e \<Rightarrow> Inl e
      | None \<Rightarrow> Inr (w\<lparr>files := (files w)(path \<mapsto> (case files w path of None \<Rightarrow> [] | Some c \<Rightarrow> c) @ text)\<rparr>))"

text \<open>
  A method with effects returns its outcome and the world it leaves. The static method
  \<open>_remove_file_if_exists\<close> is a \<open>try\<close> whose \<open>except Exception\<close> clause prints a
  message and does not raise again.
\<close>

definition remove_file_if_exists :: "string \<Rightarrow> world \<Rightarrow> (py_error + unit) \<times> world" where
  "remove_file_if_exists path w =
     (let body =
        (case os_path_exists path w of
           Inl e \<Rightarrow> (Inl e, w)
         | Inr False \<Rightarrow> (Inr (), w)
         | Inr True \<Rightarrow>
             (let w1 = print (''File already exists at path '' @ path
                              @ ''. Removing the existing file...'') w
              in case os_remove path w1 of
                   Inl e \<Rightarrow> (Inl e, w1)
                 | Inr w2 \<Rightarrow> (Inr (), print ''File deleted successfully!'' w2)))
      in case body of
           (Inl e, w') \<Rightarrow>
             (Inr (), print (''Error occurred while removing file if it exists: ''
                             @ str_of_error e) w')
         | (Inr u, w') \<Rightarrow> (Inr u, w'))"

text \<open>\<open>write_to_file\<close>: its \<open>except Exception\<close> clause prints a message and raises the
  exception again. The \<open>with\<close> block closes the file also when \<open>write\<close> raises.\<close>

definition write_to_file :: "'d car_crash_analysis \<Rightarrow> world \<Rightarrow> (py_error + unit) \<times> world" where
  "write_to_file self w =
     (let body =
        (case remove_file_if_exists (output_file_path self) w of
           (Inl e, w1) \<Rightarrow> (Inl e, w1)
         | (Inr u, w1) \<Rightarrow>
             (case open_w (output_file_path self) w1 of
                Inl e \<Rightarrow> (Inl e, w1)
              | Inr w2 \<Rightarrow>
                  (case file_write (output_file_path self) (output self) w2 of
                     Inl e \<Rightarrow> (Inl e, w2)
                   | Inr w3 \<Rightarrow>
                       (Inr (), print (''Output is successfully saved at the path: ''
                                       @ output_file_path self) w3))))
      in case body of
           (Inl e, w') \<Rightarrow>
             (Inl e, print (''Error occurred while writing output to file: ''
                            @ str_of_error e) w')
         | (Inr u, w') \<Rightarrow> (Inr u, w'))"


section \<open>The run\<close>

definition run_analyses ::
  "('d::linorder) car_crash_analysis \<Rightarrow> py_error + 'd car_crash_analysis" where
  "run_analyses self =
     then_do (get_no_of_car_crashes_persons_killed_male self)
       (\<lambda>s1. then_do (two_wheelers_booked_for_crashes s1)
       (\<lambda>s2. then_do (state_with_highest_accidents_females s2)
       (\<lambda>s3. then_do (top_5_to_15_vehicle_ids_largest_no_of_injuries s3)
       (\<lambda>s4. then_do (top_ethnic_user_group_of_each_unique_body_style s4)
       (\<lambda>s5. then_do (top_5_zip_codes_with_highest_no_of_crashes_with_alcohol_factor s5)
       (\<lambda>s6. then_do (count_distinct_crash_ids_with_damages s6)
       (\<lambda>s7. determine_top_5_vehicle_makes s7)))))))"

fun handler_message :: "py_error \<Rightarrow> string" where
  "handler_message (AnalysisException desc) = ''AnalysisException Exception: '' @ desc"
| "handler_message (IllegalArgumentException desc) = ''IllegalArgumentException Exception: '' @ desc"
| "handler_message e = str_of_error e"

text \<open>\<open>execute_analysis\<close>: the eight analyses in order, then the write; each of its
  three \<open>except\<close> clauses prints a message and raises the exception again. The process
  ends with the exception, so the object a failed run leaves is not part of the outcome.\<close>

definition execute_analysis ::
  "('d::linorder) car_crash_analysis \<Rightarrow> world
     \<Rightarrow> (py_error + 'd car_crash_analysis) \<times> world" where
  "execute_analysis self w =
     (let body =
        (case run_analyses self of
           Inl e \<Rightarrow> (Inl e, w)
         | Inr s8 \<Rightarrow>
             (case write_to_file s8 w of
                (Inl e, w') \<Rightarrow> (Inl e, w')
              | (Inr u, w') \<Rightarrow> (Inr s8, w')))
      in case body of
           (Inl e, w') \<Rightarrow> (Inl e, print (handler_message e) w')
         | (Inr s, w') \<Rightarrow> (Inr s, w'))"


section \<open>Notions of the specification and example inputs\<close>

text \<open>
  The specification's \<open>injurySeverity\<close> of a unit, stated on its own: the sum, as the
  session adds, of the numbers that the texts \<open>TOT_INJRY_CNT\<close> and \<open>DEATH_CNT\<close> stand
  for; null when a text is missing or no number. In the order on \<open>option\<close> null is
  below every number, which is where a descending \<open>orderBy\<close> puts it.
\<close>

definition injurySeverity :: "'d spark \<Rightarrow> units_row \<Rightarrow> 'd option" where
  "injurySeverity spark u =
     (case (TOT_INJRY_CNT u, DEATH_CNT u) of
        (Some injuries, Some deaths) \<Rightarrow>
          (case (cast_double spark injuries, cast_double spark deaths) of
             (Some x, Some y) \<Rightarrow> Some (double_add spark x y)
           | _ \<Rightarrow> None)
      | _ \<Rightarrow> None)"

text \<open>
  Two counts for a licence state \<open>k\<close> among the Person rows with gender FEMALE: the rows
  that have a \<open>CRASH_ID\<close>, and the distinct \<open>CRASH_ID\<close> values of these rows.
\<close>

definition female_row_count :: "person_row list \<Rightarrow> col \<Rightarrow> nat" where
  "female_row_count df k =
     length (filter (\<lambda>r. PRSN_GNDR_ID r = Some ''FEMALE'' \<and> DRVR_LIC_STATE_ID r = k
                          \<and> CRASH_ID r \<noteq> None) df)"

definition female_distinct_crash_count :: "person_row list \<Rightarrow> col \<Rightarrow> nat" where
  "female_distinct_crash_count df k =
     length (remdups (map CRASH_ID
       (filter (\<lambda>r. PRSN_GNDR_ID r = Some ''FEMALE'' \<and> DRVR_LIC_STATE_ID r = k
                    \<and> CRASH_ID r \<noteq> None) df)))"

text \<open>Rows and relations used as concrete inputs.\<close>

definition a_person :: "string \<Rightarrow> string \<Rightarrow> string \<Rightarrow> string \<Rightarrow> string \<Rightarrow> person_row" where
  "a_person crash deaths gender ethnicity state =
     \<lparr>CRASH_ID = Some crash, DEATH_CNT = Some deaths, PRSN_GNDR_ID = Some gender,
      PRSN_ETHNICITY_ID = Some ethnicity, DRVR_LIC_STATE_ID = Some state,
      DRVR_LIC_CLS_ID = Some ''CLASS C'', DRVR_ZIP = Some ''78701'',
      PRSN_ALC_RSLT_ID = Some ''Negative''\<rparr>"

definition a_unit :: "string \<Rightarrow> string \<Rightarrow> string \<Rightarrow> string \<Rightarrow> units_row" where
  "a_unit crash style vmake injuries =
     \<lparr>CRASH_ID = Some crash, DEATH_CNT = Some ''0'', VEH_BODY_STYL_ID = Some style,
      VEH_MAKE_ID = Some vmake, VEH_COLOR_ID = Some ''RED'',
      VEH_DMAG_SCL_1_ID = Some ''DAMAGED 4'', VEH_DMAG_SCL_2_ID = Some ''DAMAGED 5'',
      FIN_RESP_TYPE_ID = Some ''PROOF OF LIABILITY INSURANCE'', TOT_INJRY_CNT = Some injuries\<rparr>"

text \<open>Three women of state TX in crash 1, and one woman of state CA in each of the
  crashes 2 and 3.\<close>

definition persons_two_states :: "person_row list" where
  "persons_two_states =
     [a_person ''1'' ''0'' ''FEMALE'' ''WHITE'' ''TX'',
      a_person ''1'' ''0'' ''FEMALE'' ''WHITE'' ''TX'',
      a_person ''1'' ''0'' ''FEMALE'' ''WHITE'' ''TX'',
      a_person ''2'' ''0'' ''FEMALE'' ''WHITE'' ''CA'',
      a_person ''3'' ''0'' ''FEMALE'' ''WHITE'' ''CA'']"

definition persons_one_crash :: "person_row list" where
  "persons_one_crash =
     [a_person ''1'' ''0'' ''MALE'' ''WHITE'' ''TX'',
      a_person ''1'' ''0'' ''FEMALE'' ''WHITE'' ''TX'',
      a_person ''1'' ''0'' ''MALE'' ''BLACK'' ''TX'']"

text \<open>
  A session for the examples. Their count texts are whole numbers of at most nine
  digits, on which the cast to double and the double addition are exact, and one text
  of letters, which is no number; on these the session acts as Spark's does. Texts of
  other forms do not occur in the examples, and what this session gives for them (null)
  is not meant to follow Spark.
\<close>

definition whole_number :: "string \<Rightarrow> int option" where
  "whole_number s =
     (if s = [] \<or> 9 < length s then None else number_of_digits 0 s)"

definition whole_numbers :: "int spark" where
  "whole_numbers = \<lparr>cast_double = whole_number, double_add = (\<lambda>x y. x + y)\<rparr>"

definition unit_with_counts :: "string \<Rightarrow> string \<Rightarrow> string \<Rightarrow> units_row" where
  "unit_with_counts vmake injuries deaths =
     \<lparr>CRASH_ID = Some ''1'', DEATH_CNT = Some deaths, VEH_BODY_STYL_ID = Some ''SEDAN'',
      VEH_MAKE_ID = Some vmake, VEH_COLOR_ID = Some ''RED'',
      VEH_DMAG_SCL_1_ID = Some ''DAMAGED 4'', VEH_DMAG_SCL_2_ID = Some ''DAMAGED 5'',
      FIN_RESP_TYPE_ID = Some ''PROOF OF LIABILITY INSURANCE'', TOT_INJRY_CNT = Some injuries\<rparr>"

text \<open>Seventeen units; their sums of injuries and deaths are, in this order,
  0, 10, 7, 6, 4, null, 16, 1, 5, 3, 12, 2, 8, 9, 11, 13 and 14.\<close>

definition seventeen_units :: "units_row list" where
  "seventeen_units =
     [unit_with_counts ''A'' ''0'' ''0'',
      unit_with_counts ''B'' ''9'' ''1'',
      unit_with_counts ''C'' ''3'' ''4'',
      unit_with_counts ''D'' ''6'' ''0'',
      unit_with_counts ''E'' ''2'' ''2'',
      unit_with_counts ''F'' ''unknown'' ''0'',
      unit_with_counts ''G'' ''8'' ''8'',
      unit_with_counts ''H'' ''1'' ''0'',
      unit_with_counts ''I'' ''5'' ''0'',
      unit_with_counts ''J'' ''0'' ''3'',
      unit_with_counts ''K'' ''7'' ''5'',
      unit_with_counts ''L'' ''2'' ''0'',
      unit_with_counts ''M'' ''4'' ''4'',
      unit_with_counts ''N'' ''9'' ''0'',
      unit_with_counts ''O'' ''1'' ''10'',
      unit_with_counts ''P'' ''6'' ''7'',
      unit_with_counts ''Q'' ''7'' ''7'']"

text \<open>A world in which the output file exists, with the given faults, and an object
  whose report is ready to be written.\<close>

definition a_world :: "(os_call \<Rightarrow> py_error option) \<Rightarrow> world" where
  "a_world faults = \<lparr>files = [''out.txt'' \<mapsto> ''old report''], stdout = [], fault = faults\<rparr>"

definition an_object :: "int car_crash_analysis" where
  "an_object =
     \<lparr>spark_session = whole_numbers, output_file_path = ''out.txt'', charges_use_df = [], damages_use_df = [],
      endorse_use_df = [], primary_person_use_df = [], restrict_use_df = [],
      units_use_df = [], output = ''report''\<rparr>"

lemmas example_defs =
  a_person_def a_unit_def persons_two_states_def persons_one_crash_def


section \<open>Facts about the relational operators\<close>

lemma set_first_seen: "set (first_seen ks) = set ks"
  by (simp add: first_seen_def)

lemma set_order_by_desc: "set (order_by_desc f xs) = set xs"
  by (simp add: order_by_desc_def)

lemma length_order_by_desc: "length (order_by_desc f xs) = length xs"
  by (simp add: order_by_desc_def)

lemma order_by_desc_eq_Nil: "order_by_desc f xs = [] \<longleftrightarrow> xs = []"
  using length_order_by_desc [of f xs] by (metis length_0_conv)

lemma sorted_order_by_desc: "sorted_wrt (\<lambda>a b. f b \<le> f a) (order_by_desc f xs)"
proof -
  have "sorted (map f (sort_key f (rev xs)))"
    by simp
  then have "sorted_wrt (\<lambda>a b. f a \<le> f b) (sort_key f (rev xs))"
    by (simp add: sorted_map)
  then show ?thesis
    by (simp add: order_by_desc_def sorted_wrt_rev)
qed

lemma order_by_desc_head_max:
  assumes "order_by_desc f xs = y # ys" and "x \<in> set xs"
  shows "f x \<le> f y"
proof -
  have s: "sorted_wrt (\<lambda>a b. f b \<le> f a) (y # ys)"
    using sorted_order_by_desc [of f xs] assms(1) by simp
  have "x \<in> set (y # ys)"
    using set_order_by_desc [of f xs] assms by simp
  then show ?thesis using s by auto
qed

text \<open>Ordering again a relation that is in descending order changes nothing: the second
  \<open>orderBy\<close> of analysis 4, in its window, keeps the rows where the first put them.\<close>

lemma order_by_desc_id:
  assumes "sorted_wrt (\<lambda>a b. f b \<le> f a) xs"
  shows "order_by_desc f xs = xs"
proof -
  have "sorted_wrt (\<lambda>a b. f a \<le> f b) (rev xs)"
    using assms by (simp add: sorted_wrt_rev)
  then have "sorted (map f (rev xs))"
    by (simp add: sorted_map)
  then have "sort_key f (rev xs) = rev xs"
    by (rule sort_key_id_if_sorted)
  then show ?thesis
    by (simp add: order_by_desc_def)
qed

lemma insort_key_map:
  "insort_key f (g x) (map g xs) = map g (insort_key (\<lambda>a. f (g a)) x xs)"
  by (induction xs) auto

lemma sort_key_map: "sort_key f (map g xs) = map g (sort_key (\<lambda>a. f (g a)) xs)"
  by (induction xs) (auto simp: insort_key_map)

lemma order_by_desc_map:
  "order_by_desc f (map g xs) = map g (order_by_desc (\<lambda>a. f (g a)) xs)"
  by (simp add: order_by_desc_def sort_key_map rev_map)

lemma group_by_count_member:
  "g \<in> set (group_by_count key c df) \<longleftrightarrow>
     fst g \<in> key ` set df \<and> snd g = length (filter (\<lambda>r. key r = fst g \<and> c r \<noteq> None) df)"
  by (cases g) (auto simp: group_by_count_def set_first_seen)

lemma group_by_count_eq_Nil: "group_by_count key c df = [] \<longleftrightarrow> df = []"
  by (simp add: group_by_count_def first_seen_def)

text \<open>The rows whose number lies between \<open>a\<close> and \<open>b\<close>, when the rows are numbered
  from \<open>k\<close>, are a contiguous slice.\<close>

lemma rank_between:
  "map fst (filter (\<lambda>(x, n). a \<le> n \<and> n \<le> b) (zip xs [k ..< k + length xs])) =
     drop (a - k) (take (Suc b - k) xs)"
proof (induction xs arbitrary: k)
  case Nil
  then show ?case by simp
next
  case (Cons x xs)
  have up: "[k ..< Suc (k + length xs)] = k # [Suc k ..< Suc (k + length xs)]"
    by (simp add: upt_rec)
  show ?case
  proof (cases "a \<le> k \<and> k \<le> b")
    case True
    then have "Suc b - k = Suc (b - k)" "a - k = 0" "a - Suc k = 0"
      by auto
    then show ?thesis
      using True Cons.IH [of "Suc k"] by (simp add: up del: upt_Suc)
  next
    case False
    then consider "k < a" | "b < k" by linarith
    then show ?thesis
    proof cases
      case 1
      then have ak: "a - k = Suc (a - Suc k)" by simp
      show ?thesis
      proof (cases "k \<le> b")
        case True
        then have "Suc b - k = Suc (Suc b - Suc k)" by simp
        then show ?thesis
          using 1 Cons.IH [of "Suc k"] ak by (simp add: up del: upt_Suc)
      next
        case False
        then have "Suc b - k = 0" "Suc b - Suc k = 0" by auto
        then show ?thesis
          using 1 Cons.IH [of "Suc k"] by (simp add: up del: upt_Suc)
      qed
    next
      case 2
      then have "Suc b - k = 0" "Suc b - Suc k = 0" by auto
      then show ?thesis
        using 2 Cons.IH [of "Suc k"] by (simp add: up del: upt_Suc)
    qed
  qed
qed

lemma sorted_wrt_nth_Suc:
  "sorted_wrt R xs \<Longrightarrow> Suc i < length xs \<Longrightarrow> R (xs ! i) (xs ! Suc i)"
  by (simp add: sorted_wrt_iff_nth_less)

lemma cast_text_one: "cast_text ''1'' = Some 1"
  by (simp add: cast_text_def trim_all_def is_blank_def digit_of_def)

lemma mset_order_by_desc: "mset (order_by_desc f xs) = mset xs"
  by (simp add: order_by_desc_def)

text \<open>The column that analysis 4 adds is the \<open>injurySeverity\<close> of the specification.\<close>

lemma count_column_is_injurySeverity:
  "col_add spark (col_cast_double spark (TOT_INJRY_CNT u)) (col_cast_double spark (DEATH_CNT u)) =
     injurySeverity spark u"
  by (simp add: col_add_def col_cast_double_def injurySeverity_def
      split: option.splits)

lemma female_filter:
  "df_filter (\<lambda>r. col_eq (PRSN_GNDR_ID r) ''FEMALE'') df =
     filter (\<lambda>r. PRSN_GNDR_ID r = Some ''FEMALE'') df"
proof -
  have "(col_eq c ''FEMALE'' = Some True) = (c = Some ''FEMALE'')" for c
    by (cases c) (auto simp: col_eq_def)
  then show ?thesis
    by (simp add: df_filter_def)
qed


section \<open>Analysis 1: the count of killed males\<close>

text \<open>
  Claim C7. Analysis 1 is monotonic in the Person relation: appending a row whose
  \<open>DEATH_CNT\<close> casts to 0, or whose \<open>PRSN_GNDR_ID\<close> is not \<open>"MALE"\<close> (null included),
  leaves the count unchanged; appending a row with \<open>DEATH_CNT = "1"\<close> and
  \<open>PRSN_GNDR_ID = "MALE"\<close> raises the count by exactly 1.
\<close>

theorem analysis_1_monotonic:
  "(cast_number (DEATH_CNT r) = Some 0 \<or> PRSN_GNDR_ID r \<noteq> Some ''MALE'' \<longrightarrow>
      get_no_of_car_crashes_persons_killed_male_result (df @ [r]) =
      get_no_of_car_crashes_persons_killed_male_result df)
   \<and> (DEATH_CNT r = Some ''1'' \<and> PRSN_GNDR_ID r = Some ''MALE'' \<longrightarrow>
      get_no_of_car_crashes_persons_killed_male_result (df @ [r]) =
      get_no_of_car_crashes_persons_killed_male_result df + 1)"
proof (intro conjI impI)
  assume "cast_number (DEATH_CNT r) = Some 0 \<or> PRSN_GNDR_ID r \<noteq> Some ''MALE''"
  then have "sql_and (col_gt (cast_number (DEATH_CNT r)) 0) (col_eq (PRSN_GNDR_ID r) ''MALE'')
               \<noteq> Some True"
    by (cases "PRSN_GNDR_ID r"; cases "cast_number (DEATH_CNT r)")
       (auto simp: sql_and_def col_gt_def col_eq_def)
  then show "get_no_of_car_crashes_persons_killed_male_result (df @ [r]) =
      get_no_of_car_crashes_persons_killed_male_result df"
    by (simp add: get_no_of_car_crashes_persons_killed_male_result_def df_filter_def)
next
  assume "DEATH_CNT r = Some ''1'' \<and> PRSN_GNDR_ID r = Some ''MALE''"
  then have "sql_and (col_gt (cast_number (DEATH_CNT r)) 0) (col_eq (PRSN_GNDR_ID r) ''MALE'')
               = Some True"
    by (simp add: sql_and_def col_gt_def col_eq_def cast_number_def cast_text_one)
  then show "get_no_of_car_crashes_persons_killed_male_result (df @ [r]) =
      get_no_of_car_crashes_persons_killed_male_result df + 1"
    by (simp add: get_no_of_car_crashes_persons_killed_male_result_def df_filter_def)
qed

text \<open>The scenario of the specification: one killed male and one unharmed male give the
  count 1; a further unharmed male leaves it, a further killed male makes it 2.\<close>

theorem analysis_1_monotonic_witness:
  "cast_number (DEATH_CNT (a_person ''2'' ''0'' ''MALE'' ''WHITE'' ''TX'')) = Some 0
   \<and> get_no_of_car_crashes_persons_killed_male_result
        ([a_person ''1'' ''1'' ''MALE'' ''WHITE'' ''TX'', a_person ''1'' ''0'' ''MALE'' ''WHITE'' ''TX'']
         @ [a_person ''2'' ''0'' ''MALE'' ''WHITE'' ''TX'']) = 1
   \<and> get_no_of_car_crashes_persons_killed_male_result
        ([a_person ''1'' ''1'' ''MALE'' ''WHITE'' ''TX'', a_person ''1'' ''0'' ''MALE'' ''WHITE'' ''TX'']
         @ [a_person ''2'' ''1'' ''MALE'' ''WHITE'' ''TX'']) = 2"
proof -
  let ?df = "[a_person ''1'' ''1'' ''MALE'' ''WHITE'' ''TX'', a_person ''1'' ''0'' ''MALE'' ''WHITE'' ''TX'']"
  have zero: "cast_number (DEATH_CNT (a_person ''2'' ''0'' ''MALE'' ''WHITE'' ''TX'')) = Some 0"
    by (simp add: a_person_def cast_number_def cast_text_def trim_all_def is_blank_def
        digit_of_def)
  have one: "DEATH_CNT (a_person ''2'' ''1'' ''MALE'' ''WHITE'' ''TX'') = Some ''1''
             \<and> PRSN_GNDR_ID (a_person ''2'' ''1'' ''MALE'' ''WHITE'' ''TX'') = Some ''MALE''"
    by (simp add: a_person_def)
  have base: "get_no_of_car_crashes_persons_killed_male_result ?df = 1"
    by (simp add: get_no_of_car_crashes_persons_killed_male_result_def df_filter_def a_person_def
        sql_and_def col_gt_def col_eq_def cast_number_def cast_text_def trim_all_def
        is_blank_def digit_of_def)
  show ?thesis
    using zero one base
      analysis_1_monotonic [of "a_person ''2'' ''0'' ''MALE'' ''WHITE'' ''TX''" ?df]
      analysis_1_monotonic [of "a_person ''2'' ''1'' ''MALE'' ''WHITE'' ''TX''" ?df]
    by simp
qed


section \<open>Analysis 3: the state with the most accidents of women\<close>

text \<open>
  Claim C3. The specification asks that the count compared per state be the number of
  distinct crashes, as the method's docstring and label say (the state with the highest
  number of accidents in which females are involved). The source counts rows: on
  \<open>persons_two_states\<close> it answers TX, whose three rows are one crash, although CA
  has two distinct crashes.
\<close>

theorem analysis_3_counts_rows_not_crashes:
  "state_with_highest_accidents_females_result persons_two_states =
     Inr [(''DRVR_LIC_STATE_ID'', PyStr ''TX'')]
   \<and> female_distinct_crash_count persons_two_states (Some ''TX'') = 1
   \<and> female_distinct_crash_count persons_two_states (Some ''CA'') = 2"
  by (simp add: example_defs state_with_highest_accidents_females_result_def
      female_distinct_crash_count_def df_filter_def col_eq_def group_by_count_def first_seen_def
      order_by_desc_def collect1_def py_getitem_def py_col_def)

text \<open>
  What the source computes instead: with at least one Person row of gender FEMALE, the
  row of a state that occurs among these rows and has the most of them (rows with a
  \<open>CRASH_ID\<close>, crashes not de-duplicated).
\<close>

lemma analysis_3_max_row_count:
  assumes "\<exists>r \<in> set df. PRSN_GNDR_ID r = Some ''FEMALE''"
  shows "\<exists>k. state_with_highest_accidents_females_result df =
                Inr [(''DRVR_LIC_STATE_ID'', py_col k)]
            \<and> (\<exists>r \<in> set df. PRSN_GNDR_ID r = Some ''FEMALE'' \<and> DRVR_LIC_STATE_ID r = k)
            \<and> (\<forall>k'. female_row_count df k' \<le> female_row_count df k)"
proof -
  let ?fem = "filter (\<lambda>r. PRSN_GNDR_ID r = Some ''FEMALE'') df"
  let ?groups = "group_by_count DRVR_LIC_STATE_ID CRASH_ID ?fem"
  have cnt: "length (filter (\<lambda>r. DRVR_LIC_STATE_ID r = k \<and> CRASH_ID r \<noteq> None) ?fem) =
               female_row_count df k" for k
    by (simp add: female_row_count_def conj_commute conj_left_commute cong: conj_cong)
  from assms have "?fem \<noteq> []"
    by (auto simp: filter_empty_conv)
  then have "order_by_desc snd ?groups \<noteq> []"
    by (simp add: order_by_desc_eq_Nil group_by_count_eq_Nil)
  then obtain g gs where sorted_groups: "order_by_desc snd ?groups = g # gs"
    by (cases "order_by_desc snd ?groups") auto
  have result: "state_with_highest_accidents_females_result df =
                  Inr [(''DRVR_LIC_STATE_ID'', py_col (fst g))]"
    by (simp add: state_with_highest_accidents_females_result_def female_filter sorted_groups
        collect1_def py_getitem_def)
  have "g \<in> set ?groups"
    using set_order_by_desc [of snd ?groups] sorted_groups by auto
  then have g: "fst g \<in> DRVR_LIC_STATE_ID ` set ?fem" "snd g = female_row_count df (fst g)"
    unfolding group_by_count_member cnt by blast+
  have max: "female_row_count df k' \<le> female_row_count df (fst g)" for k'
  proof (cases "k' \<in> DRVR_LIC_STATE_ID ` set ?fem")
    case True
    then have "(k', female_row_count df k') \<in> set ?groups"
      unfolding group_by_count_member cnt fst_conv snd_conv by blast
    then have "snd (k', female_row_count df k') \<le> snd g"
      by (rule order_by_desc_head_max [OF sorted_groups])
    then show ?thesis
      using g(2) by simp
  next
    case False
    then have "female_row_count df k' = 0"
      by (auto simp: female_row_count_def filter_empty_conv)
    then show ?thesis by simp
  qed
  from g(1) have "\<exists>r \<in> set df. PRSN_GNDR_ID r = Some ''FEMALE'' \<and> DRVR_LIC_STATE_ID r = fst g"
    by auto
  with result max show ?thesis by blast
qed

text \<open>
  Claim C5. The specification asks that no analysis raises on a relation that is empty
  after filtering. Analysis 3 indexes the collected list with \<open>[0]\<close>: on every Person
  relation without a row of gender FEMALE (here: any relation with such rows removed)
  the method raises \<open>IndexError\<close> and appends nothing.
\<close>

theorem analysis_3_raises_without_female_rows:
  "state_with_highest_accidents_females
     (self\<lparr>primary_person_use_df := filter (\<lambda>r. PRSN_GNDR_ID r \<noteq> Some ''FEMALE'') df\<rparr>) =
   Inl (IndexError ''list index out of range'')"
proof -
  have "df_filter (\<lambda>r. col_eq (PRSN_GNDR_ID r) ''FEMALE'')
          (filter (\<lambda>r. PRSN_GNDR_ID r \<noteq> Some ''FEMALE'') df) = []"
    by (auto simp: df_filter_def col_eq_def filter_empty_conv)
  then show ?thesis
    by (simp add: state_with_highest_accidents_females_def
        state_with_highest_accidents_females_result_def group_by_count_eq_Nil order_by_desc_eq_Nil
        collect1_def py_getitem_def then_do_def)
qed


section \<open>Analysis 4: ranks 5 to 15 by injuries and deaths\<close>

text \<open>In the model, where \<open>orderBy\<close> keeps equal keys in their order, the result is
  the slice of ranks 5 to 15 of the units in descending order of \<open>injurySeverity\<close>.\<close>

lemma analysis_4_pipeline:
  "top_5_to_15_vehicle_ids_largest_no_of_injuries_result spark units =
     collect1 ''VEH_MAKE_ID''
       (map VEH_MAKE_ID (drop 4 (take 15 (order_by_desc (injurySeverity spark) units))))"
proof -
  let ?P = "map (\<lambda>u. (u, injurySeverity spark u))"
  let ?S = "order_by_desc (injurySeverity spark) units"
  let ?df = "take 15 (?P ?S)"
  have first_sort: "order_by_desc snd (?P units) = ?P ?S"
    by (simp add: order_by_desc_map)
  have "sorted_wrt (\<lambda>a b. injurySeverity spark b \<le> injurySeverity spark a) ?S"
    by (rule sorted_order_by_desc)
  then have "sorted_wrt (\<lambda>a b. snd b \<le> snd a) (?P ?S)"
    by (simp add: sorted_wrt_map)
  then have "sorted_wrt (\<lambda>a b. snd b \<le> snd a) ?df"
    by (rule sorted_wrt_take)
  then have second_sort: "order_by_desc snd ?df = ?df"
    by (rule order_by_desc_id)
  have numbered: "with_row_number_desc snd ?df = zip ?df [1 ..< 1 + length ?df]"
    by (simp only: second_sort with_row_number_desc_def Let_def plus_1_eq_Suc)
  have pred: "(\<lambda>((u, c), row_num). (5::nat) \<le> row_num \<and> row_num \<le> 15) =
                (\<lambda>(x, n). 5 \<le> n \<and> n \<le> 15)"
    by (auto simp: fun_eq_iff)
  have sel: "select (\<lambda>((u, c), row_num). VEH_MAKE_ID u) zs =
               map (\<lambda>(u, c). VEH_MAKE_ID u) (map fst zs)"
    for zs :: "((units_row \<times> 'a option) \<times> nat) list"
    by (induction zs) auto
  have slice: "map fst (filter (\<lambda>(x, n). 5 \<le> n \<and> n \<le> 15) (zip ?df [1 ..< 1 + length ?df])) =
                 drop 4 (take 15 ?df)"
    using rank_between [of 5 15 ?df 1] by simp
  have "drop 4 (take 15 ?df) = ?P (drop 4 (take 15 ?S))"
    by (simp add: take_map drop_map)
  then have "map (\<lambda>(u, c). VEH_MAKE_ID u) (drop 4 (take 15 ?df)) =
               map VEH_MAKE_ID (drop 4 (take 15 ?S))"
    by (simp add: comp_def)
  then show ?thesis
    unfolding top_5_to_15_vehicle_ids_largest_no_of_injuries_result_def Let_def
      count_column_is_injurySeverity first_sort numbered pred sel slice
    by simp
qed

text \<open>
  Claim C6. The list that analysis 4 returns has at most 11 entries and is a contiguous
  rank slice of the units ordered descending by \<open>injurySeverity\<close>: there is a ranking
  of all units (the same rows, in an order of descending \<open>injurySeverity\<close>) whose ranks
  5 to 15 yield the returned \<open>VEH_MAKE_ID\<close> values in rank order; so of two adjacent
  entries the unit of the first has an \<open>injurySeverity\<close> at least that of the second.
  The statement holds for every cast and addition the session may have, and names no
  order among units of equal \<open>injurySeverity\<close>.
\<close>

theorem analysis_4_rank_slice:
  "\<exists>ranked us.
       mset ranked = mset units
     \<and> sorted_wrt (\<lambda>a b. injurySeverity spark b \<le> injurySeverity spark a) ranked
     \<and> us = drop 4 (take 15 ranked)
     \<and> top_5_to_15_vehicle_ids_largest_no_of_injuries_result spark units =
         collect1 ''VEH_MAKE_ID'' (map VEH_MAKE_ID us)
     \<and> length (top_5_to_15_vehicle_ids_largest_no_of_injuries_result spark units) \<le> 11
     \<and> (\<forall>i. Suc i < length us \<longrightarrow>
            injurySeverity spark (us ! Suc i) \<le> injurySeverity spark (us ! i))"
proof -
  let ?S = "order_by_desc (injurySeverity spark) units"
  let ?us = "drop 4 (take 15 ?S)"
  have perm: "mset ?S = mset units"
    by (rule mset_order_by_desc)
  have sorted_S: "sorted_wrt (\<lambda>a b. injurySeverity spark b \<le> injurySeverity spark a) ?S"
    by (rule sorted_order_by_desc)
  then have "sorted_wrt (\<lambda>a b. injurySeverity spark b \<le> injurySeverity spark a) ?us"
    by (intro sorted_wrt_drop sorted_wrt_take)
  then have adjacent:
    "\<forall>i. Suc i < length ?us \<longrightarrow>
         injurySeverity spark (?us ! Suc i) \<le> injurySeverity spark (?us ! i)"
    using sorted_wrt_nth_Suc by blast
  have len: "length (top_5_to_15_vehicle_ids_largest_no_of_injuries_result spark units) \<le> 11"
    by (simp add: analysis_4_pipeline collect1_def)
  show ?thesis
    using perm sorted_S adjacent len analysis_4_pipeline by blast
qed

text \<open>On the seventeen units the ranks 5 to 15 are the sums 11 down to 1: eleven
  entries; the ranks 1 to 4 (16, 14, 13, 12) and the ranks 16 and 17 (0 and null) are
  cut off.\<close>

lemma seventeen_units_result:
  "top_5_to_15_vehicle_ids_largest_no_of_injuries_result whole_numbers seventeen_units =
     [[(''VEH_MAKE_ID'', PyStr ''O'')], [(''VEH_MAKE_ID'', PyStr ''B'')],
      [(''VEH_MAKE_ID'', PyStr ''N'')], [(''VEH_MAKE_ID'', PyStr ''M'')],
      [(''VEH_MAKE_ID'', PyStr ''C'')], [(''VEH_MAKE_ID'', PyStr ''D'')],
      [(''VEH_MAKE_ID'', PyStr ''I'')], [(''VEH_MAKE_ID'', PyStr ''E'')],
      [(''VEH_MAKE_ID'', PyStr ''J'')], [(''VEH_MAKE_ID'', PyStr ''L'')],
      [(''VEH_MAKE_ID'', PyStr ''H'')]]"
  by code_simp

lemma seventeen_units_sums:
  "injurySeverity whole_numbers (unit_with_counts ''O'' ''1'' ''10'') = Some 11"
  "injurySeverity whole_numbers (unit_with_counts ''B'' ''9'' ''1'') = Some 10"
  "injurySeverity whole_numbers (unit_with_counts ''C'' ''3'' ''4'') = Some 7"
  "injurySeverity whole_numbers (unit_with_counts ''F'' ''unknown'' ''0'') = None"
  by (simp_all add: injurySeverity_def whole_numbers_def whole_number_def unit_with_counts_def
      digit_of_def)

theorem analysis_4_rank_slice_witness:
  "top_5_to_15_vehicle_ids_largest_no_of_injuries_result whole_numbers seventeen_units =
     [[(''VEH_MAKE_ID'', PyStr ''O'')], [(''VEH_MAKE_ID'', PyStr ''B'')],
      [(''VEH_MAKE_ID'', PyStr ''N'')], [(''VEH_MAKE_ID'', PyStr ''M'')],
      [(''VEH_MAKE_ID'', PyStr ''C'')], [(''VEH_MAKE_ID'', PyStr ''D'')],
      [(''VEH_MAKE_ID'', PyStr ''I'')], [(''VEH_MAKE_ID'', PyStr ''E'')],
      [(''VEH_MAKE_ID'', PyStr ''J'')], [(''VEH_MAKE_ID'', PyStr ''L'')],
      [(''VEH_MAKE_ID'', PyStr ''H'')]]
   \<and> injurySeverity whole_numbers (unit_with_counts ''O'' ''1'' ''10'') = Some 11
   \<and> injurySeverity whole_numbers (unit_with_counts ''B'' ''9'' ''1'') = Some 10
   \<and> (\<exists>ranked us.
          mset ranked = mset seventeen_units
        \<and> us = drop 4 (take 15 ranked)
        \<and> length us = 11
        \<and> top_5_to_15_vehicle_ids_largest_no_of_injuries_result whole_numbers seventeen_units =
            collect1 ''VEH_MAKE_ID'' (map VEH_MAKE_ID us)
        \<and> injurySeverity whole_numbers (us ! 1) \<le> injurySeverity whole_numbers (us ! 0)
        \<and> injurySeverity whole_numbers (us ! 10) \<le> injurySeverity whole_numbers (us ! 9))"
proof -
  obtain ranked us where r:
      "mset ranked = mset seventeen_units"
      "us = drop 4 (take 15 ranked)"
      "top_5_to_15_vehicle_ids_largest_no_of_injuries_result whole_numbers seventeen_units =
         collect1 ''VEH_MAKE_ID'' (map VEH_MAKE_ID us)"
      "\<forall>i. Suc i < length us \<longrightarrow>
          injurySeverity whole_numbers (us ! Suc i) \<le> injurySeverity whole_numbers (us ! i)"
    using analysis_4_rank_slice [of seventeen_units whole_numbers] by blast
  have "length (top_5_to_15_vehicle_ids_largest_no_of_injuries_result whole_numbers
                  seventeen_units) = 11"
    by (simp add: seventeen_units_result)
  then have len: "length us = 11"
    unfolding r(3) by (simp add: collect1_def)
  then have "Suc 0 < length us" and "Suc 9 < length us"
    by simp_all
  then have "injurySeverity whole_numbers (us ! Suc 0) \<le> injurySeverity whole_numbers (us ! 0)"
    and "injurySeverity whole_numbers (us ! Suc 9) \<le> injurySeverity whole_numbers (us ! 9)"
    using r(4) by blast+
  then have "injurySeverity whole_numbers (us ! 1) \<le> injurySeverity whole_numbers (us ! 0)
      \<and> injurySeverity whole_numbers (us ! 10) \<le> injurySeverity whole_numbers (us ! 9)"
    by simp
  with r(1,2,3) len seventeen_units_result seventeen_units_sums(1,2)
  show ?thesis by blast
qed


section \<open>Analysis 5: ethnic groups per body style\<close>

text \<open>
  Claim C4. The specification asks for one ethnicity per body style, the one with the
  highest count. The source stops at the grouped counts: for one SEDAN in a crash with
  two WHITE persons and one BLACK person it returns two rows for SEDAN, each with its
  count, and no mapping from the style to WHITE.
\<close>

theorem analysis_5_returns_triples:
  "top_ethnic_user_group_of_each_unique_body_style_result
     [a_unit ''1'' ''SEDAN'' ''FORD'' ''0''] persons_one_crash =
   [[(''VEH_BODY_STYL_ID'', PyStr ''SEDAN''), (''PRSN_ETHNICITY_ID'', PyStr ''WHITE''),
     (''ethn_count'', PyInt 2)],
    [(''VEH_BODY_STYL_ID'', PyStr ''SEDAN''), (''PRSN_ETHNICITY_ID'', PyStr ''BLACK''),
     (''ethn_count'', PyInt 1)]]"
  by (simp add: example_defs top_ethnic_user_group_of_each_unique_body_style_result_def
      inner_join_def group_by_count_def first_seen_def py_col_def)


section \<open>Analysis 7: the condition that cannot be built\<close>

text \<open>
  Claim C2. The specification asks that analysis 7 return the number of distinct
  \<open>CRASH_ID\<close> values of the Unit rows without a Damage row, with both damage levels
  high and with insurance. In the source the method raises on every input: the
  condition starts with the uncalled \<open>isNull\<close>; and the expression that follows
  collects the distinct rows, it does not count them.
\<close>

theorem analysis_7_raises:
  "count_distinct_crash_ids_with_damages self =
     Inl (AttributeError ''function object has no attribute _get_object_id'')"
  by (simp add: count_distinct_crash_ids_with_damages_def
      count_distinct_crash_ids_with_damages_result_def then_do_def Let_def)



section \<open>The lines of the report\<close>

text \<open>The formatted result of an analysis holds no line break: \<open>repr\<close> escapes it.\<close>

lemma nth_not_newline:
  assumes "newline \<notin> set cs" and "k < length cs"
  shows "cs ! k \<noteq> newline"
  using assms nth_mem by metis

lemma digit_not_newline: "k < 10 \<Longrightarrow> ''0123456789'' ! k \<noteq> newline"
  by (rule nth_not_newline) simp_all

lemma hex_digit_not_newline: "k < 16 \<Longrightarrow> ''0123456789abcdef'' ! k \<noteq> newline"
  by (rule nth_not_newline) simp_all

lemma newline_digits10: "newline \<notin> set (digits10 n)"
proof (induction n rule: digits10.induct)
  case (1 n)
  show ?case
  proof (cases "n < 10")
    case True
    then have "digits10 n = [''0123456789'' ! n]"
      by (subst digits10.simps) simp
    then show ?thesis
      using digit_not_newline [OF True] by (simp del: nth_Cons_numeral)
  next
    case False
    then have "digits10 n = digits10 (n div 10) @ [''0123456789'' ! (n mod 10)]"
      by (subst digits10.simps) simp
    moreover have "''0123456789'' ! (n mod 10) \<noteq> newline"
      by (rule digit_not_newline) simp
    ultimately show ?thesis
      using 1 [OF False] by (simp del: nth_Cons_numeral)
  qed
qed

lemma newline_repr_int: "newline \<notin> set (repr_int i)"
  by (simp add: repr_int_def newline_digits10)

lemma newline_hex2: "newline \<notin> set (hex2 n)"
proof -
  have "''0123456789abcdef'' ! (n div 16 mod 16) \<noteq> newline"
    by (rule hex_digit_not_newline) simp
  moreover have "''0123456789abcdef'' ! (n mod 16) \<noteq> newline"
    by (rule hex_digit_not_newline) simp
  ultimately show ?thesis
    by (simp add: hex2_def del: nth_Cons_numeral)
qed

lemma newline_escape_char: "q \<noteq> newline \<Longrightarrow> newline \<notin> set (escape_char q c)"
  using newline_hex2 by (auto simp: escape_char_def)

lemma newline_repr_str: "newline \<notin> set (repr_str s)"
  by (auto simp: repr_str_def Let_def newline_escape_char)

lemma newline_repr_value: "newline \<notin> set (repr_value v)"
  by (cases v) (simp_all add: newline_repr_int newline_repr_str)

lemma newline_join_with:
  "newline \<notin> set sep \<Longrightarrow> (\<forall>x \<in> set xs. newline \<notin> set x) \<Longrightarrow> newline \<notin> set (join_with sep xs)"
  by (induction sep xs rule: join_with.induct) auto

lemma newline_repr_row:
  assumes "\<forall>(k, v) \<in> set r. newline \<notin> set k"
  shows "newline \<notin> set (repr_row r)"
proof -
  have "\<forall>x \<in> set (map (\<lambda>(k, v). k @ ''='' @ repr_value v) r). newline \<notin> set x"
    using assms newline_repr_value by auto
  then have "newline \<notin> set (join_with '', '' (map (\<lambda>(k, v). k @ ''='' @ repr_value v) r))"
    by (intro newline_join_with) simp_all
  then show ?thesis
    by (simp add: repr_row_def)
qed

lemma newline_format_collect1:
  assumes "newline \<notin> set name"
  shows "newline \<notin> set (format_res (RowList (collect1 name cs)))"
proof -
  have "\<forall>x \<in> set (map repr_row (collect1 name cs)). newline \<notin> set x"
    using assms by (auto simp: collect1_def intro!: newline_repr_row)
  then have "newline \<notin> set (join_with '', '' (map repr_row (collect1 name cs)))"
    by (intro newline_join_with) simp_all
  then show ?thesis by simp
qed

text \<open>
  The text that analysis 8 appends is three lines on every input: its label runs over
  the first two lines and the start of the third, and the lines after the first begin
  with eight blanks.
\<close>

lemma analysis_8_appends_three_lines:
  "\<exists>res. determine_top_5_vehicle_makes self =
       Inr (append_output self
         (''Top 5 Vehicle Makes where drivers are charged with speeding related offences,''
          @ [newline]
          @ ''        has licensed Drivers, uses top 10 used vehicle colours and has car licensed with the Top 25''
          @ [newline]
          @ ''        states with highest number of offences: '' @ res @ [newline]))
     \<and> newline \<notin> set res"
proof -
  have "newline \<notin> set (format_res (RowList (determine_top_5_vehicle_makes_result
          (units_use_df self) (charges_use_df self) (primary_person_use_df self))))"
    unfolding determine_top_5_vehicle_makes_result_def Let_def
    by (rule newline_format_collect1) simp
  then show ?thesis
    unfolding determine_top_5_vehicle_makes_def Let_def by blast
qed

text \<open>Analysis 6, whose result has the same form, appends one line.\<close>

lemma analysis_6_appends_one_line:
  "\<exists>res. top_5_zip_codes_with_highest_no_of_crashes_with_alcohol_factor self =
       Inr (append_output self
         (''Among the crashed cars, what are the Top 5 Zip Codes with highest number crashes with alcohols as the contributing factor to a crash: ''
          @ res @ [newline]))
     \<and> newline \<notin> set res"
proof -
  have "newline \<notin> set (format_res (RowList
          (top_5_zip_codes_with_highest_no_of_crashes_with_alcohol_factor_result
             (primary_person_use_df self) (units_use_df self))))"
    unfolding top_5_zip_codes_with_highest_no_of_crashes_with_alcohol_factor_result_def
    by (rule newline_format_collect1) simp
  then show ?thesis
    unfolding top_5_zip_codes_with_highest_no_of_crashes_with_alcohol_factor_def Let_def by blast
qed


section \<open>The run\<close>

text \<open>No run reaches \<open>write_to_file\<close>: analysis 7 raises when analysis 3 has not, so
  \<open>execute_analysis\<close> raises on every input and leaves the files as they were. A
  property of the file that a completed run writes has therefore no run to hold of.\<close>

lemma analysis_7_result_raises:
  "count_distinct_crash_ids_with_damages_result units damages =
     Inl (AttributeError ''function object has no attribute _get_object_id'')"
  by (simp add: count_distinct_crash_ids_with_damages_result_def then_do_def Let_def)

lemma run_analyses_raises: "\<exists>e. run_analyses self = Inl e"
  by (simp add: run_analyses_def then_do_def get_no_of_car_crashes_persons_killed_male_def
      two_wheelers_booked_for_crashes_def state_with_highest_accidents_females_def
      top_5_to_15_vehicle_ids_largest_no_of_injuries_def
      top_ethnic_user_group_of_each_unique_body_style_def
      top_5_zip_codes_with_highest_no_of_crashes_with_alcohol_factor_def
      count_distinct_crash_ids_with_damages_def analysis_7_result_raises Let_def
      split: sum.splits)

lemma execute_analysis_raises:
  "\<exists>e. fst (execute_analysis self w) = Inl e \<and> files (snd (execute_analysis self w)) = files w"
proof -
  obtain e where "run_analyses self = Inl e"
    using run_analyses_raises by blast
  then show ?thesis
    by (simp add: execute_analysis_def print_def)
qed


section \<open>The report sink\<close>

lemma remove_file_if_exists_returns: "fst (remove_file_if_exists path w) = Inr ()"
  by (auto simp: remove_file_if_exists_def os_path_exists_def os_remove_def print_def Let_def
      split: option.splits sum.splits bool.splits)

lemma remove_file_if_exists_files:
  "files (snd (remove_file_if_exists path w)) =
     (if fault w PathExists = None \<and> fault w Remove = None then (files w)(path := None)
      else files w)"
  by (auto simp: remove_file_if_exists_def os_path_exists_def os_remove_def print_def Let_def
      fun_eq_iff split: option.splits sum.splits bool.splits)

lemma remove_file_if_exists_fault:
  "fault (snd (remove_file_if_exists path w)) = fault w"
  by (auto simp: remove_file_if_exists_def os_path_exists_def os_remove_def print_def Let_def
      split: option.splits sum.splits bool.splits)

lemma remove_file_if_exists_pair:
  "\<exists>w1. remove_file_if_exists path w = (Inr (), w1) \<and> fault w1 = fault w
        \<and> w1 = snd (remove_file_if_exists path w)"
  using remove_file_if_exists_returns [of path w] remove_file_if_exists_fault [of path w]
  by (cases "remove_file_if_exists path w") auto

lemma write_to_file_open_fails:
  assumes "fault w OpenWrite = Some e"
  shows "fst (write_to_file self w) = Inl e"
proof -
  obtain w1 where "remove_file_if_exists (output_file_path self) w = (Inr (), w1)"
      "fault w1 = fault w"
    using remove_file_if_exists_pair by blast
  with assms show ?thesis
    by (simp add: write_to_file_def open_w_def)
qed

lemma write_to_file_write_fails:
  assumes "fault w OpenWrite = None" and "fault w Write = Some e"
  shows "fst (write_to_file self w) = Inl e"
proof -
  obtain w1 where "remove_file_if_exists (output_file_path self) w = (Inr (), w1)"
      "fault w1 = fault w"
    using remove_file_if_exists_pair by blast
  with assms show ?thesis
    by (simp add: write_to_file_def open_w_def file_write_def)
qed

lemma write_to_file_succeeds:
  assumes "fault w OpenWrite = None" and "fault w Write = None"
  shows "fst (write_to_file self w) = Inr ()"
    and "files (snd (write_to_file self w)) =
           (files (snd (remove_file_if_exists (output_file_path self) w)))
             (output_file_path self \<mapsto> output self)"
proof -
  obtain w1 where w1: "remove_file_if_exists (output_file_path self) w = (Inr (), w1)"
      "fault w1 = fault w" "w1 = snd (remove_file_if_exists (output_file_path self) w)"
    using remove_file_if_exists_pair by blast
  from assms w1(1,2) show "fst (write_to_file self w) = Inr ()"
    by (simp add: write_to_file_def open_w_def file_write_def)
  from assms w1(1,2) have "files (snd (write_to_file self w)) =
      (files w1)(output_file_path self \<mapsto> output self)"
    by (simp add: write_to_file_def open_w_def file_write_def print_def)
  then show "files (snd (write_to_file self w)) =
           (files (snd (remove_file_if_exists (output_file_path self) w)))
             (output_file_path self \<mapsto> output self)"
    using w1(3) by simp
qed

lemma remove_file_if_exists_deletes:
  assumes "fault w PathExists = None" and "fault w Remove = None" and "files w path = Some old"
  shows "remove_file_if_exists path w =
     (Inr (), print ''File deleted successfully!''
        ((print (''File already exists at path '' @ path @ ''. Removing the existing file...'') w)
           \<lparr>files := (files w)(path := None)\<rparr>))"
  using assms
  by (simp add: remove_file_if_exists_def os_path_exists_def os_remove_def print_def)

lemma write_to_file_open_fails_world:
  assumes "fault w OpenWrite = Some e"
  shows "snd (write_to_file self w) =
     print (''Error occurred while writing output to file: '' @ str_of_error e)
       (snd (remove_file_if_exists (output_file_path self) w))"
proof -
  obtain w1 where "remove_file_if_exists (output_file_path self) w = (Inr (), w1)"
      "fault w1 = fault w"
    using remove_file_if_exists_pair by blast
  with assms show ?thesis
    by (simp add: write_to_file_def open_w_def)
qed

lemma write_to_file_write_fails_world:
  assumes "fault w OpenWrite = None" and "fault w Write = Some e"
  shows "snd (write_to_file self w) =
     print (''Error occurred while writing output to file: '' @ str_of_error e)
       ((snd (remove_file_if_exists (output_file_path self) w))
          \<lparr>files := (files (snd (remove_file_if_exists (output_file_path self) w)))
                       (output_file_path self \<mapsto> [])\<rparr>)"
proof -
  obtain w1 where "remove_file_if_exists (output_file_path self) w = (Inr (), w1)"
      "fault w1 = fault w"
    using remove_file_if_exists_pair by blast
  with assms show ?thesis
    by (simp add: write_to_file_def open_w_def file_write_def)
qed

lemma write_to_file_succeeds_world:
  assumes "fault w OpenWrite = None" and "fault w Write = None"
  shows "snd (write_to_file self w) =
     print (''Output is successfully saved at the path: '' @ output_file_path self)
       ((snd (remove_file_if_exists (output_file_path self) w))
          \<lparr>files := (files (snd (remove_file_if_exists (output_file_path self) w)))
                       (output_file_path self \<mapsto> output self)\<rparr>)"
proof -
  obtain w1 where "remove_file_if_exists (output_file_path self) w = (Inr (), w1)"
      "fault w1 = fault w"
    using remove_file_if_exists_pair by blast
  with assms show ?thesis
    by (simp add: write_to_file_def open_w_def file_write_def)
qed

text \<open>
  Claim C9. The report sink first deletes an existing file at the destination: when the
  existence check and the removal work, the deletion step announces the removal, removes
  the file and reports it, and \<open>write_to_file\<close> continues in the world this step leaves.
  An absent file is no error: the deletion step returns normally and changes nothing
  then, and a second deletion changes nothing more. Then the full report is written:
  the outcome is the deletion's world with the report as the content of the file and the
  message of success. A failure of \<open>open\<close> or of \<open>write\<close> reaches the caller as
  that exception, after its message is printed: when \<open>open\<close> fails the world is the
  deletion's world (the old file is gone), when \<open>write\<close> fails it is that world with
  the file emptied.
\<close>

theorem report_sink:
  "(fault w PathExists = None \<and> files w path = None \<longrightarrow>
       remove_file_if_exists path w = (Inr (), w))
   \<and> (fault w PathExists = None \<and> fault w Remove = None \<longrightarrow>
       files (snd (remove_file_if_exists path w)) = (files w)(path := None))
   \<and> (fault w PathExists = None \<and> fault w Remove = None \<and> files w path \<noteq> None \<longrightarrow>
       remove_file_if_exists path w =
         (Inr (), print ''File deleted successfully!''
            ((print (''File already exists at path '' @ path
                     @ ''. Removing the existing file...'') w)
               \<lparr>files := (files w)(path := None)\<rparr>)))
   \<and> files (snd (remove_file_if_exists path (snd (remove_file_if_exists path w)))) =
       files (snd (remove_file_if_exists path w))
   \<and> (fault w OpenWrite = None \<and> fault w Write = None \<longrightarrow>
       fst (write_to_file self w) = Inr ()
       \<and> files (snd (write_to_file self w)) =
           (files (snd (remove_file_if_exists (output_file_path self) w)))
             (output_file_path self \<mapsto> output self)
       \<and> snd (write_to_file self w) =
           print (''Output is successfully saved at the path: '' @ output_file_path self)
             ((snd (remove_file_if_exists (output_file_path self) w))
                \<lparr>files := (files (snd (remove_file_if_exists (output_file_path self) w)))
                             (output_file_path self \<mapsto> output self)\<rparr>))
   \<and> (fault w OpenWrite = Some e \<longrightarrow>
       fst (write_to_file self w) = Inl e
       \<and> snd (write_to_file self w) =
           print (''Error occurred while writing output to file: '' @ str_of_error e)
             (snd (remove_file_if_exists (output_file_path self) w)))
   \<and> (fault w PathExists = None \<and> fault w Remove = None \<and> fault w OpenWrite = Some e \<longrightarrow>
       files (snd (write_to_file self w)) = (files w)(output_file_path self := None))
   \<and> (fault w OpenWrite = None \<and> fault w Write = Some e \<longrightarrow>
       fst (write_to_file self w) = Inl e
       \<and> snd (write_to_file self w) =
           print (''Error occurred while writing output to file: '' @ str_of_error e)
             ((snd (remove_file_if_exists (output_file_path self) w))
                \<lparr>files := (files (snd (remove_file_if_exists (output_file_path self) w)))
                             (output_file_path self \<mapsto> [])\<rparr>))"
proof -
  have absent: "fault w PathExists = None \<and> files w path = None \<longrightarrow>
       remove_file_if_exists path w = (Inr (), w)"
    by (simp add: remove_file_if_exists_def os_path_exists_def)
  have deleted: "fault w PathExists = None \<and> fault w Remove = None \<longrightarrow>
       files (snd (remove_file_if_exists path w)) = (files w)(path := None)"
    by (simp add: remove_file_if_exists_files)
  have step: "fault w PathExists = None \<and> fault w Remove = None \<and> files w path \<noteq> None \<longrightarrow>
       remove_file_if_exists path w =
         (Inr (), print ''File deleted successfully!''
            ((print (''File already exists at path '' @ path
                     @ ''. Removing the existing file...'') w)
               \<lparr>files := (files w)(path := None)\<rparr>))"
    using remove_file_if_exists_deletes [of w path] by auto
  have idempotent: "files (snd (remove_file_if_exists path (snd (remove_file_if_exists path w)))) =
       files (snd (remove_file_if_exists path w))"
    by (simp add: remove_file_if_exists_files remove_file_if_exists_fault)
  have gone: "fault w PathExists = None \<and> fault w Remove = None \<and> fault w OpenWrite = Some e \<longrightarrow>
       files (snd (write_to_file self w)) = (files w)(output_file_path self := None)"
    by (simp add: write_to_file_open_fails_world remove_file_if_exists_files print_def)
  show ?thesis
    using absent deleted step idempotent gone
      write_to_file_succeeds [of w self] write_to_file_succeeds_world [of w self]
      write_to_file_open_fails [of w e self] write_to_file_open_fails_world [of w e self]
      write_to_file_write_fails [of w e self] write_to_file_write_fails_world [of w e self]
    by blast
qed

text \<open>The sink on a world where \<open>out.txt\<close> holds an old report: without faults the old
  file is removed and the report written, with the three messages in this order; when
  \<open>open\<close> fails the old file is gone and nothing is written; when \<open>write\<close> fails the
  file is left empty. On a path with no file the deletion step changes nothing.\<close>

theorem report_sink_witness:
  "remove_file_if_exists ''other.txt'' (a_world (\<lambda>c. None)) = (Inr (), a_world (\<lambda>c. None))
   \<and> files (snd (remove_file_if_exists ''out.txt'' (a_world (\<lambda>c. None)))) ''out.txt'' = None
   \<and> stdout (snd (remove_file_if_exists ''out.txt'' (a_world (\<lambda>c. None)))) =
       [''File already exists at path out.txt. Removing the existing file...'',
        ''File deleted successfully!'']
   \<and> fst (write_to_file an_object (a_world (\<lambda>c. None))) = Inr ()
   \<and> files (snd (write_to_file an_object (a_world (\<lambda>c. None)))) ''out.txt'' = Some ''report''
   \<and> stdout (snd (write_to_file an_object (a_world (\<lambda>c. None)))) =
       [''File already exists at path out.txt. Removing the existing file...'',
        ''File deleted successfully!'',
        ''Output is successfully saved at the path: out.txt'']
   \<and> fst (write_to_file an_object
        (a_world (\<lambda>c. if c = OpenWrite then Some (OSError ''Read-only file system'') else None)))
       = Inl (OSError ''Read-only file system'')
   \<and> files (snd (write_to_file an_object
        (a_world (\<lambda>c. if c = OpenWrite then Some (OSError ''Read-only file system'') else None))))
        ''out.txt'' = None
   \<and> fst (write_to_file an_object
        (a_world (\<lambda>c. if c = Write then Some (OSError ''No space left on device'') else None)))
       = Inl (OSError ''No space left on device'')
   \<and> files (snd (write_to_file an_object
        (a_world (\<lambda>c. if c = Write then Some (OSError ''No space left on device'') else None))))
        ''out.txt'' = Some []"
  using report_sink [of "a_world (\<lambda>c. None)" "''other.txt''" an_object]
    report_sink [of "a_world (\<lambda>c. None)" "''out.txt''" an_object]
    report_sink [of "a_world (\<lambda>c. if c = OpenWrite then Some (OSError ''Read-only file system'') else None)"
                    "''out.txt''" an_object "OSError ''Read-only file system''"]
    report_sink [of "a_world (\<lambda>c. if c = Write then Some (OSError ''No space left on device'') else None)"
                    "''out.txt''" an_object "OSError ''No space left on device''"]
  by (simp add: a_world_def an_object_def print_def)

text \<open>
  Claim C10. \<open>_remove_file_if_exists\<close> returns normally whatever the existence check
  or the removal raises, and the write is still attempted: with a failing deletion step
  the report is written when \<open>open\<close> and \<open>write\<close> work, and a failure of \<open>open\<close>
  is the one that reaches the caller.
\<close>

theorem remove_file_if_exists_never_raises:
  "fst (remove_file_if_exists path w) = Inr ()
   \<and> (fault w OpenWrite = None \<and> fault w Write = None \<longrightarrow>
        fst (write_to_file self w) = Inr ()
        \<and> files (snd (write_to_file self w)) (output_file_path self) = Some (output self))
   \<and> (fault w OpenWrite = Some e \<longrightarrow> fst (write_to_file self w) = Inl e)"
  using remove_file_if_exists_returns [of path w] write_to_file_succeeds [of w self]
    write_to_file_open_fails [of w e self]
  by simp

theorem remove_file_if_exists_never_raises_witness:
  "fault (a_world (\<lambda>c. if c = Remove then Some (OSError ''Permission denied'') else None)) Remove
     = Some (OSError ''Permission denied'')
   \<and> fst (remove_file_if_exists ''out.txt''
        (a_world (\<lambda>c. if c = Remove then Some (OSError ''Permission denied'') else None))) = Inr ()
   \<and> fst (write_to_file an_object
        (a_world (\<lambda>c. if c = Remove then Some (OSError ''Permission denied'') else None))) = Inr ()
   \<and> files (snd (write_to_file an_object
        (a_world (\<lambda>c. if c = Remove then Some (OSError ''Permission denied'') else None))))
        ''out.txt'' = Some ''report''
   \<and> fst (write_to_file an_object
        (a_world (\<lambda>c. if c = OpenWrite then Some (OSError ''Read-only file system'') else None)))
       = Inl (OSError ''Read-only file system'')"
  using remove_file_if_exists_never_raises
          [of "''out.txt''" "a_world (\<lambda>c. if c = Remove then Some (OSError ''Permission denied'') else None)"
              an_object]
        remove_file_if_exists_never_raises
          [of "''out.txt''" "a_world (\<lambda>c. if c = OpenWrite then Some (OSError ''Read-only file system'') else None)"
              an_object "OSError ''Read-only file system''"]
  by (simp add: a_world_def an_object_def)

end
